theory Spec2Isabelle
  imports Complex_Main "HOL-Library.Word"
begin

section \<open>Vectors\<close>

text \<open>
  Modelled from the spec: \<open>ChVector<>\<close> is declared in \<open>core/ChVector.h\<close>, which is not
  among the sources. It is a triple of doubles; doubles are read as reals.
\<close>

datatype ChVector = ChVector (vec_x: real) (vec_y: real) (vec_z: real)

text \<open>
  Modelled from the spec: \<open>ChVector::Length\<close> is not among the sources. It is the Euclidean
  norm, which the spec writes \<open>|v|\<close> and uses as the distance between centres.
\<close>

definition Length :: "ChVector \<Rightarrow> real" where
  "Length v = sqrt ((vec_x v)\<^sup>2 + (vec_y v)\<^sup>2 + (vec_z v)\<^sup>2)"

text \<open>
  Modelled from the spec: the sum of two vectors (\<open>operator+\<close> of \<open>ChVector\<close>, not among the
  sources), component by component: the translation by the shoe position.
\<close>

definition vadd :: "ChVector \<Rightarrow> ChVector \<Rightarrow> ChVector" where
  "vadd a b = ChVector (vec_x a + vec_x b) (vec_y a + vec_y b) (vec_z a + vec_z b)"

text \<open>
  Modelled from the spec: the difference of two vectors (\<open>operator-\<close> of \<open>ChVector\<close>, not
  among the sources), component by component: the vector from centre to centre.
\<close>

definition vsub :: "ChVector \<Rightarrow> ChVector \<Rightarrow> ChVector" where
  "vsub a b = ChVector (vec_x a - vec_x b) (vec_y a - vec_y b) (vec_z a - vec_z b)"

section \<open>GearPinGeometry\<close>

datatype error = AssertionFailed | OutOfRange

record GearPinGeometry =
  m_gear_base_radius :: real
  m_gear_pitch_radius :: real
  m_gear_tooth_radius :: real
  m_gear_seat_width_max :: real
  m_gear_seat_width_min :: real
  m_num_teeth :: nat
  m_key_angle :: real
  m_tooth_mid_bar :: ChVector
  m_tooth_len :: real
  m_tooth_width :: real
  m_pin_radius :: real
  m_pin_width_max :: real
  m_pin_width_min :: real
  m_pin_x_offset :: real
  m_pin_y_offset :: real

text \<open>
  The constructor: the member initialisers, then the three \<open>assert\<close>s in their order.
  A failed \<open>assert\<close> aborts the program, so no object comes into being: \<open>Inl AssertionFailed\<close>.
\<close>

definition GearPinGeometry ::
  "real \<Rightarrow> real \<Rightarrow> real \<Rightarrow> real \<Rightarrow> ChVector \<Rightarrow> real \<Rightarrow> real \<Rightarrow> nat \<Rightarrow> real \<Rightarrow>
   real \<Rightarrow> real \<Rightarrow> real \<Rightarrow> real \<Rightarrow> real \<Rightarrow> error + GearPinGeometry" where
  "GearPinGeometry gear_base_radius gear_pitch_radius gear_seat_width_max gear_seat_width_min
     tooth_mid_bar tooth_len tooth_width num_teeth key_angle
     pin_radius pin_width_max pin_width_min pin_x_offset pin_y_offset =
   (let g = \<lparr> m_gear_base_radius = gear_base_radius,
               m_gear_pitch_radius = gear_pitch_radius,
               m_gear_tooth_radius = gear_pitch_radius - gear_base_radius,
               m_gear_seat_width_max = gear_seat_width_max,
               m_gear_seat_width_min = gear_seat_width_min,
               m_num_teeth = num_teeth,
               m_key_angle = key_angle,
               m_tooth_mid_bar = tooth_mid_bar,
               m_tooth_len = tooth_len,
               m_tooth_width = tooth_width,
               m_pin_radius = pin_radius,
               m_pin_width_max = pin_width_max,
               m_pin_width_min = pin_width_min,
               m_pin_x_offset = pin_x_offset,
               m_pin_y_offset = pin_y_offset \<rparr>
    in if \<not> (m_gear_seat_width_max g - m_gear_seat_width_min g > 0) then Inl AssertionFailed
       else if \<not> (m_pin_width_max g - m_pin_width_min g > 0) then Inl AssertionFailed
       else if \<not> (m_gear_pitch_radius g - m_gear_base_radius g > 0) then Inl AssertionFailed
       else Inr g)"

text \<open>The default arguments of the constructor (the M113 gear and pin).\<close>

definition default_geometry :: "error + GearPinGeometry" where
  "default_geometry =
     GearPinGeometry 0.211 0.267 0.626 0.458 (ChVector 0.079815 0.24719 0.2712)
       0.013119 0.0840 10 0.0 0.0232 0.531 0.38 (-0.07581) 0"

section \<open>Bodies, contacts and the system\<close>

text \<open>
  A \<open>ChSharedPtr<ChBody>\<close> is a handle; the pose it gives access to belongs to the system
  and changes between steps. \<open>ChQuaternion\<close> is not among the sources: a rotation is taken
  as a parameter, through what its \<open>Rotate\<close> does to a vector.
\<close>

type_synonym ChBody = nat
type_synonym ChQuaternion = "ChVector \<Rightarrow> ChVector"

definition Rotate :: "ChQuaternion \<Rightarrow> ChVector \<Rightarrow> ChVector" where
  "Rotate q v = q v"

text \<open>
  A \<open>float*\<close> points either at the buffer of the \<open>reactions_cache\<close> vector held by the
  hash table entry of a shoe, or at the buffer of a vector local to a function call.
\<close>

datatype float_ptr = CacheSlot int | LocalBuf nat

record ChCollisionInfo =
  modelA :: ChBody
  modelB :: ChBody
  vN :: ChVector
  vpA :: ChVector
  vpB :: ChVector
  distance :: real
  reaction_cache :: float_ptr

text \<open>
  The system: body poses, the contact container that \<open>AddContact\<close> appends to, and the
  buffers of the function-local vectors that are alive.
\<close>

record ChSystem =
  GetPos :: "ChBody \<Rightarrow> ChVector"
  GetRot :: "ChBody \<Rightarrow> ChQuaternion"
  contact_container :: "ChCollisionInfo list"
  live_locals :: "nat \<rightharpoonup> real list"
  next_local :: nat

definition AddContact :: "ChCollisionInfo \<Rightarrow> ChSystem \<Rightarrow> ChSystem" where
  "AddContact mcont sys = sys\<lparr>contact_container := contact_container sys @ [mcont]\<rparr>"

section \<open>The persistent contact cache\<close>

record GearPinCacheContact =
  reactions_cache :: "real list"

definition GearPinCacheContact :: GearPinCacheContact where
  "GearPinCacheContact = \<lparr> reactions_cache = replicate 6 0 \<rparr>"

text \<open>
  Modelled from the spec: \<open>ChHashTable\<close> (\<open>core/ChHashTable.h\<close>) is not among the sources.
  The spec describes an associative store from an integer shoe identifier to a record,
  with at most one entry per identifier; it leaves the behaviour beyond the capacity
  open, so the table is a map.
\<close>

type_synonym ChHashTable = "int \<rightharpoonup> GearPinCacheContact"

text \<open>
  Modelled from the spec: \<open>ChHashTable::find\<close>, the non-inserting lookup; \<open>None\<close> stands for
  the iterator \<open>end()\<close>.
\<close>

definition ChHashTable_find :: "ChHashTable \<Rightarrow> int \<Rightarrow> GearPinCacheContact option" where
  "ChHashTable_find mhash key = mhash key"

text \<open>
  Modelled from the spec: \<open>ChHashTable::insert\<close> with a key alone adds a default-constructed
  record under the key and returns an iterator to it. The default constructor of
  \<open>GearPinCacheContact\<close> is the one above, from the source.
\<close>

definition ChHashTable_insert :: "ChHashTable \<Rightarrow> int \<Rightarrow> ChHashTable \<times> GearPinCacheContact" where
  "ChHashTable_insert mhash key = (mhash(key \<mapsto> GearPinCacheContact), GearPinCacheContact)"

text \<open>
  The lookup at the head of \<open>Found_GearPin_Contact\<close>: \<open>find\<close>, and \<open>insert\<close> when the
  iterator is \<open>end()\<close>. It yields the table and the entry the iterator then points at.
\<close>

definition get_or_create :: "ChHashTable \<Rightarrow> int \<Rightarrow> ChHashTable \<times> GearPinCacheContact" where
  "get_or_create mhash shoeID =
     (case ChHashTable_find mhash shoeID of
        None \<Rightarrow> ChHashTable_insert mhash shoeID
      | Some mcached \<Rightarrow> (mhash, mcached))"

section \<open>GearPinCollisionCallback\<close>

text \<open>
  The members of the callback. \<open>m_shoes\<close> and \<open>m_gear\<close> are references to the caller's
  vector of shoe handles and to its gear handle; the state holds what they refer to, and
  no operation of the callback resizes the vector. \<open>m_Ncontacts\<close> is an \<open>int\<close> of 32 bits,
  \<open>m_persistent_hashtable_dim\<close> a \<open>size_t\<close> of 64 bits initialised from an \<open>int\<close>.
\<close>

record GearPinCollisionCallback =
  m_p1_bar :: ChVector
  m_p2_bar :: ChVector
  m_seat1_bar :: "ChVector list"
  m_seat2_bar :: "ChVector list"
  m_shoes :: "ChBody list"
  m_gear :: ChBody
  m_geom :: GearPinGeometry
  m_contactPrevStep :: "bool list"
  m_persistentContactSteps :: "nat list"
  m_Ncontacts :: "32 word"
  m_persistent_hashtable_dim :: "64 word"
  hashed_contacts :: ChHashTable

text \<open>
  The loop of the constructor over the teeth. Both vectors have been resized to
  \<open>m_num_teeth\<close>, so every write is in range. The counter \<open>t_idx\<close> is an \<open>int\<close> compared
  with a \<open>size_t\<close>; it is a natural number here, which agrees with the code for every
  tooth count an \<open>int\<close> can hold.
\<close>

function seat_loop ::
  "GearPinGeometry \<Rightarrow> nat \<Rightarrow> ChVector list \<times> ChVector list \<Rightarrow> ChVector list \<times> ChVector list" where
  "seat_loop geom t_idx (seat1, seat2) =
     (if t_idx < m_num_teeth geom
      then seat_loop geom (Suc t_idx)
             (seat1[t_idx := ChVector (m_gear_base_radius geom * sin (m_key_angle geom))
                                      (m_gear_base_radius geom * cos (m_key_angle geom))
                                      (m_gear_seat_width_min geom / 2)],
              seat2[t_idx := ChVector (m_gear_base_radius geom * sin (m_key_angle geom))
                                      (m_gear_base_radius geom * cos (m_key_angle geom))
                                      (m_gear_seat_width_max geom / 2)])
      else (seat1, seat2))"
  by pat_completeness auto
termination
  by (relation "measure (\<lambda>(geom, t_idx, seats). m_num_teeth geom - t_idx)") auto

definition GearPinCollisionCallback ::
  "ChBody list \<Rightarrow> ChBody \<Rightarrow> GearPinGeometry \<Rightarrow> int \<Rightarrow> GearPinCollisionCallback" where
  "GearPinCollisionCallback shoes gear_body geom persistent_hashtable_dim =
     (let seats = seat_loop geom 0 (replicate (m_num_teeth geom) (ChVector 0 0 0),
                                    replicate (m_num_teeth geom) (ChVector 0 0 0))
      in \<lparr> m_p1_bar = ChVector (m_pin_x_offset geom) (m_pin_y_offset geom) (m_pin_width_min geom / 2),
           m_p2_bar = ChVector (m_pin_x_offset geom) (m_pin_y_offset geom) (m_pin_width_max geom / 2),
           m_seat1_bar = fst seats,
           m_seat2_bar = snd seats,
           m_shoes = shoes,
           m_gear = gear_body,
           m_geom = geom,
           m_contactPrevStep = replicate (length shoes) False,
           m_persistentContactSteps = replicate (length shoes) 0,
           m_Ncontacts = 0,
           m_persistent_hashtable_dim = word_of_int persistent_hashtable_dim,
           hashed_contacts = Map.empty \<rparr>)"

text \<open>
  \<open>Found_GearPin_Contact\<close> up to and including \<open>AddContact\<close>. The local vector
  \<open>mreaction_cache\<close> is assigned a copy of the entry's vector; its buffer is a fresh local
  one, and \<open>&(mreaction_cache[0])\<close> is the address of that buffer. The third component is
  the serial number of the local buffer.
\<close>

definition Found_GearPin_Contact_body ::
  "ChBody \<Rightarrow> ChBody \<Rightarrow> int \<Rightarrow> ChVector \<Rightarrow> ChVector \<Rightarrow> ChVector \<Rightarrow> real \<Rightarrow>
   GearPinCollisionCallback \<times> ChSystem \<Rightarrow> GearPinCollisionCallback \<times> ChSystem \<times> nat" where
  "Found_GearPin_Contact_body gear shoe shoeID pa pb vn mdist st =
     (let cb = fst st; sys = snd st;
          found = get_or_create (hashed_contacts cb) shoeID;
          mreaction_cache = reactions_cache (snd found);
          buf = next_local sys;
          sys1 = sys\<lparr>live_locals := (live_locals sys)(buf \<mapsto> mreaction_cache),
                     next_local := Suc buf\<rparr>;
          mcont = \<lparr> modelA = gear, modelB = shoe, vN = vn, vpA = pa, vpB = pb,
                    distance = mdist, reaction_cache = LocalBuf buf \<rparr>;
          cb1 = cb\<lparr>hashed_contacts := fst found, m_Ncontacts := m_Ncontacts cb + 1\<rparr>
      in (cb1, AddContact mcont sys1, buf))"

text \<open>The whole call: on return the local vector is destroyed and its buffer released.\<close>

definition Found_GearPin_Contact ::
  "ChBody \<Rightarrow> ChBody \<Rightarrow> int \<Rightarrow> ChVector \<Rightarrow> ChVector \<Rightarrow> ChVector \<Rightarrow> real \<Rightarrow>
   GearPinCollisionCallback \<times> ChSystem \<Rightarrow> GearPinCollisionCallback \<times> ChSystem" where
  "Found_GearPin_Contact gear shoe shoeID pa pb vn mdist st =
     (case Found_GearPin_Contact_body gear shoe shoeID pa pb vn mdist st of
        (cb1, sys2, buf) \<Rightarrow> (cb1, sys2\<lparr>live_locals := (live_locals sys2)(buf := None)\<rparr>))"

text \<open>What a \<open>float*\<close> points at, if anything.\<close>

fun deref :: "GearPinCollisionCallback \<times> ChSystem \<Rightarrow> float_ptr \<Rightarrow> real list option" where
  "deref (cb, sys) (CacheSlot shoeID) = map_option reactions_cache (hashed_contacts cb shoeID)"
| "deref (cb, sys) (LocalBuf buf) = live_locals sys buf"

text \<open>
  A write of six reactions through a \<open>float*\<close>, as the solver does when it stores the
  reactions of a contact back. Writing through a pointer to nothing is undefined: \<open>None\<close>.
\<close>

fun store_reactions ::
  "float_ptr \<Rightarrow> real list \<Rightarrow> GearPinCollisionCallback \<times> ChSystem \<Rightarrow>
   (GearPinCollisionCallback \<times> ChSystem) option" where
  "store_reactions (CacheSlot shoeID) v (cb, sys) =
     (case hashed_contacts cb shoeID of
        None \<Rightarrow> None
      | Some e \<Rightarrow> Some (cb\<lparr>hashed_contacts := (hashed_contacts cb)(shoeID \<mapsto> e\<lparr>reactions_cache := v\<rparr>)\<rparr>, sys))"
| "store_reactions (LocalBuf buf) v (cb, sys) =
     (case live_locals sys buf of
        None \<Rightarrow> None
      | Some old \<Rightarrow> Some (cb, sys\<lparr>live_locals := (live_locals sys)(buf \<mapsto> v)\<rparr>))"

subsection \<open>The per-step callback\<close>

definition bound_rad_Gear :: "GearPinGeometry \<Rightarrow> real" where
  "bound_rad_Gear geom = sqrt ((Length (m_tooth_mid_bar geom))\<^sup>2 + (m_tooth_len geom * 0.5)\<^sup>2)"

definition bound_rad_Shoe :: "GearPinGeometry \<Rightarrow> real" where
  "bound_rad_Shoe geom =
     Length (ChVector (m_pin_x_offset geom + m_pin_radius geom) (m_pin_y_offset geom)
                      (m_pin_width_max geom / 2))"

text \<open>
  The centre \<open>pin_pos\<close> of the shoe's bounding sphere and the condition of the \<open>if\<close> that
  guards the narrow phase, for the shoe at index \<open>idx\<close>. The position is read through
  \<open>m_shoes\<close>, the rotation through the parameter \<open>shoes\<close>.
\<close>

definition pin_pos :: "GearPinCollisionCallback \<Rightarrow> ChSystem \<Rightarrow> ChBody list \<Rightarrow> nat \<Rightarrow> ChVector" where
  "pin_pos cb sys shoes idx =
     (let shoe_pos = GetPos sys (m_shoes cb ! idx)
      in vadd shoe_pos
           (Rotate (GetRot sys (shoes ! idx)) (ChVector (- m_pin_x_offset (m_geom cb)) 0 0)))"

definition broad_phase :: "GearPinCollisionCallback \<Rightarrow> ChSystem \<Rightarrow> ChBody list \<Rightarrow> nat \<Rightarrow> bool" where
  "broad_phase cb sys shoes idx =
     (let gear_pos = GetPos sys (m_gear cb)
      in Length (vsub gear_pos (pin_pos cb sys shoes idx))
           \<le> bound_rad_Gear (m_geom cb) + bound_rad_Shoe (m_geom cb))"

text \<open>
  The loop of \<open>CollisionGearPinFamily\<close>. Neither branch of the \<open>if\<close> holds a statement:
  the narrow phase is a comment. The list carried along records the indices for which
  control enters the branch that the narrow phase belongs to. The bound is
  \<open>m_shoes.size()\<close>, while the rotation is read from the by-value parameter \<open>shoes\<close>;
  a read beyond its end is \<open>Inl OutOfRange\<close>.
\<close>

function CollisionGearPinFamily_loop ::
  "ChBody list \<Rightarrow> nat \<Rightarrow> GearPinCollisionCallback \<times> ChSystem \<times> nat list \<Rightarrow>
   error + (GearPinCollisionCallback \<times> ChSystem \<times> nat list)" where
  "CollisionGearPinFamily_loop shoes idx (cb, sys, entered) =
     (if idx < length (m_shoes cb)
      then (if \<not> idx < length shoes then Inl OutOfRange
            else if broad_phase cb sys shoes idx
            then CollisionGearPinFamily_loop shoes (Suc idx) (cb, sys, entered @ [idx])
            else CollisionGearPinFamily_loop shoes (Suc idx) (cb, sys, entered))
      else Inr (cb, sys, entered))"
  by pat_completeness auto
termination
  by (relation "measure (\<lambda>(shoes, idx, cb, sys, entered). length (m_shoes cb) - idx)") auto

definition CollisionGearPinFamily ::
  "ChBody \<Rightarrow> ChBody list \<Rightarrow> GearPinCollisionCallback \<times> ChSystem \<Rightarrow>
   error + (GearPinCollisionCallback \<times> ChSystem \<times> nat list)" where
  "CollisionGearPinFamily gear shoes st = CollisionGearPinFamily_loop shoes 0 (fst st, snd st, [])"

definition PerformCustomCollision ::
  "GearPinCollisionCallback \<times> ChSystem \<Rightarrow> error + (GearPinCollisionCallback \<times> ChSystem \<times> nat list)" where
  "PerformCustomCollision st = CollisionGearPinFamily (m_gear (fst st)) (m_shoes (fst st)) st"

subsection \<open>Queries\<close>

text \<open>
  The \<open>assert\<close> compares with the size of the shoe vector, the read is from
  \<open>m_contactPrevStep\<close>; a read beyond its end is \<open>Inl OutOfRange\<close>.
\<close>

definition Get_contactPrevStep :: "GearPinCollisionCallback \<Rightarrow> nat \<Rightarrow> error + bool" where
  "Get_contactPrevStep cb idx =
     (if \<not> idx < length (m_shoes cb) then Inl AssertionFailed
      else if \<not> idx < length (m_contactPrevStep cb) then Inl OutOfRange
      else Inr (m_contactPrevStep cb ! idx))"

definition GetNcontacts_GearPin :: "GearPinCollisionCallback \<Rightarrow> int" where
  "GetNcontacts_GearPin cb = sint (m_Ncontacts cb)"

section \<open>Runs\<close>

text \<open>
  What happens to a callback over its life: the system moves the bodies and invokes the
  per-step callback; \<open>Found_GearPin_Contact\<close> is called for a contact that was found; or
  the caller changes its vector of shoes, which \<open>m_shoes\<close> refers to, so that the callback
  sees the new vector while the per-shoe vectors it sized at construction stay as they are.
\<close>

datatype call =
    Step "ChBody \<Rightarrow> ChVector" "ChBody \<Rightarrow> ChQuaternion"
  | Contact ChBody ChBody int ChVector ChVector ChVector real
  | Shoes "ChBody list"

fun exec ::
  "call \<Rightarrow> GearPinCollisionCallback \<times> ChSystem \<Rightarrow> error + (GearPinCollisionCallback \<times> ChSystem)" where
  "exec (Step pos rot) (cb, sys) =
     (case PerformCustomCollision (cb, sys\<lparr>GetPos := pos, GetRot := rot\<rparr>) of
        Inl e \<Rightarrow> Inl e
      | Inr (cb', sys', entered) \<Rightarrow> Inr (cb', sys'))"
| "exec (Contact gear shoe shoeID pa pb vn mdist) (cb, sys) =
     Inr (Found_GearPin_Contact gear shoe shoeID pa pb vn mdist (cb, sys))"
| "exec (Shoes shoes) (cb, sys) = Inr (cb\<lparr>m_shoes := shoes\<rparr>, sys)"

fun run ::
  "call list \<Rightarrow> GearPinCollisionCallback \<times> ChSystem \<Rightarrow> error + (GearPinCollisionCallback \<times> ChSystem)" where
  "run [] st = Inr st"
| "run (c # cs) st = (case exec c st of Inl e \<Rightarrow> Inl e | Inr st' \<Rightarrow> run cs st')"

fun is_Contact :: "call \<Rightarrow> bool" where
  "is_Contact (Contact gear shoe shoeID pa pb vn mdist) = True"
| "is_Contact (Step pos rot) = False"
| "is_Contact (Shoes shoes) = False"

fun is_Shoes :: "call \<Rightarrow> bool" where
  "is_Shoes (Shoes shoes) = True"
| "is_Shoes (Step pos rot) = False"
| "is_Shoes (Contact gear shoe shoeID pa pb vn mdist) = False"

definition persistence_after ::
  "call list \<Rightarrow> GearPinCollisionCallback \<times> ChSystem \<Rightarrow> error + nat list" where
  "persistence_after calls st =
     (case run calls st of Inl e \<Rightarrow> Inl e | Inr (cb, sys) \<Rightarrow> Inr (m_persistentContactSteps cb))"

definition contacts_after ::
  "call list \<Rightarrow> GearPinCollisionCallback \<times> ChSystem \<Rightarrow> error + nat" where
  "contacts_after calls st =
     (case run calls st of Inl e \<Rightarrow> Inl e | Inr (cb, sys) \<Rightarrow> Inr (length (contact_container sys)))"

definition count_after ::
  "call list \<Rightarrow> GearPinCollisionCallback \<times> ChSystem \<Rightarrow> error + int" where
  "count_after calls st =
     (case run calls st of Inl e \<Rightarrow> Inl e | Inr (cb, sys) \<Rightarrow> Inr (GetNcontacts_GearPin cb))"

definition prev_after ::
  "call list \<Rightarrow> GearPinCollisionCallback \<times> ChSystem \<Rightarrow> nat \<Rightarrow> error + bool" where
  "prev_after calls st idx =
     (case run calls st of Inl e \<Rightarrow> Inl e | Inr (cb, sys) \<Rightarrow> Get_contactPrevStep cb idx)"

section \<open>Concrete inputs\<close>

text \<open>
  The default geometry, a system with the gear (body 0) at the origin and one shoe
  (body 1) somewhere, unrotated, and the callback constructed over them with the default
  table dimension.
\<close>

definition M113 :: GearPinGeometry where
  "M113 = projr default_geometry"

definition new_system :: "(ChBody \<Rightarrow> ChVector) \<Rightarrow> (ChBody \<Rightarrow> ChQuaternion) \<Rightarrow> ChSystem" where
  "new_system pos rot =
     \<lparr> GetPos = pos, GetRot = rot, contact_container = [], live_locals = Map.empty, next_local = 0 \<rparr>"

definition shoe_at :: "ChVector \<Rightarrow> ChBody \<Rightarrow> ChVector" where
  "shoe_at p b = (if b = 0 then ChVector 0 0 0 else p)"

definition unrotated :: "ChBody \<Rightarrow> ChQuaternion" where
  "unrotated b v = v"

definition one_shoe :: GearPinCollisionCallback where
  "one_shoe = GearPinCollisionCallback [1] 0 M113 1000"

text \<open>The shoe 10 m from the gear.\<close>

definition sys_far :: ChSystem where
  "sys_far = new_system (shoe_at (ChVector 10 0 0)) unrotated"

text \<open>The pin axis on the axis of the seat cylinder.\<close>

definition sys_seated :: ChSystem where
  "sys_seated = new_system (shoe_at (ChVector 0.07581 0.211 0)) unrotated"

text \<open>The pin axis parallel to the seat axis, pin radius plus tooth radius away from it.\<close>

definition sys_surface :: ChSystem where
  "sys_surface = new_system (shoe_at (ChVector 0.07581 0.2902 0)) unrotated"

text \<open>The shoe 0.6 m from the gear along x.\<close>

definition sys_near :: ChSystem where
  "sys_near = new_system (shoe_at (ChVector 0.6 0 0)) unrotated"

text \<open>
  The pin pressed into the seat: the pin axis parallel to the seat axis, one pin radius
  away from it.
\<close>

definition sys_pressed :: ChSystem where
  "sys_pressed = new_system (shoe_at (ChVector 0.07581 0.2342 0)) unrotated"


text \<open>
  Four steps: the shoe far away, twice pressed into the seat with a contact reported for
  it in the step, and far away again.
\<close>

definition four_steps :: "call list" where
  "four_steps =
     [Step (shoe_at (ChVector 10 0 0)) unrotated,
      Step (shoe_at (ChVector 0.07581 0.2342 0)) unrotated,
      Contact 0 1 7 (ChVector 0 0.2342 0.229) (ChVector 0 0.211 0.229) (ChVector 0 1 0) (- 0.056),
      Step (shoe_at (ChVector 0.07581 0.2342 0)) unrotated,
      Contact 0 1 7 (ChVector 0 0.2342 0.229) (ChVector 0 0.211 0.229) (ChVector 0 1 0) (- 0.056),
      Step (shoe_at (ChVector 10 0 0)) unrotated]"

text \<open>One reported contact, as a call of a run.\<close>

definition one_contact :: call where
  "one_contact =
     Contact 0 1 7 (ChVector 0 0.2342 0.229) (ChVector 0 0.211 0.229) (ChVector 0 1 0) (- 0.056)"

text \<open>
  The pointers the contacts in the container carry; a write through a pointer followed
  by a read through another; and a contact reported for shoe identifier 7, as a whole
  call and at the moment of \<open>AddContact\<close>.
\<close>

definition contact_pointers :: "ChSystem \<Rightarrow> float_ptr list" where
  "contact_pointers sys = map reaction_cache (contact_container sys)"

definition stored_then_read ::
  "float_ptr \<Rightarrow> real list \<Rightarrow> GearPinCollisionCallback \<times> ChSystem \<Rightarrow> float_ptr \<Rightarrow> real list option" where
  "stored_then_read p v st q =
     (case store_reactions p v st of None \<Rightarrow> None | Some st' \<Rightarrow> deref st' q)"

definition contact_7 ::
  "GearPinCollisionCallback \<times> ChSystem \<Rightarrow> GearPinCollisionCallback \<times> ChSystem" where
  "contact_7 st =
     Found_GearPin_Contact 0 1 7 (ChVector 0 0.2342 0.229) (ChVector 0 0.211 0.229) (ChVector 0 1 0) 0 st"

definition contact_7_at_AddContact ::
  "GearPinCollisionCallback \<times> ChSystem \<Rightarrow> GearPinCollisionCallback \<times> ChSystem" where
  "contact_7_at_AddContact st =
     (case Found_GearPin_Contact_body 0 1 7 (ChVector 0 0.2342 0.229) (ChVector 0 0.211 0.229)
             (ChVector 0 1 0) 0 st of
        (cb1, sys2, buf) \<Rightarrow> (cb1, sys2))"

section \<open>Auxiliary facts\<close>

declare CollisionGearPinFamily_loop.simps [simp del]
declare seat_loop.simps [simp del]

lemma M113_fields:
  "m_gear_base_radius M113 = 0.211" "m_gear_pitch_radius M113 = 0.267"
  "m_gear_tooth_radius M113 = 0.056"
  "m_gear_seat_width_max M113 = 0.626" "m_gear_seat_width_min M113 = 0.458"
  "m_num_teeth M113 = 10" "m_key_angle M113 = 0"
  "m_tooth_mid_bar M113 = ChVector 0.079815 0.24719 0.2712"
  "m_tooth_len M113 = 0.013119" "m_tooth_width M113 = 0.084"
  "m_pin_radius M113 = 0.0232" "m_pin_width_max M113 = 0.531" "m_pin_width_min M113 = 0.38"
  "m_pin_x_offset M113 = - 0.07581" "m_pin_y_offset M113 = 0"
  by (simp_all add: M113_def default_geometry_def GearPinGeometry_def Let_def)

lemma Length_less: "0 < r \<Longrightarrow> a\<^sup>2 + b\<^sup>2 + c\<^sup>2 < r\<^sup>2 \<Longrightarrow> Length (ChVector a b c) < r"
  unfolding Length_def by (simp add: real_less_lsqrt)

lemma Length_greater: "0 \<le> r \<Longrightarrow> r\<^sup>2 < a\<^sup>2 + b\<^sup>2 + c\<^sup>2 \<Longrightarrow> r < Length (ChVector a b c)"
  unfolding Length_def by (simp add: real_less_rsqrt)

lemma bound_rad_Gear_M113: "0.375 < bound_rad_Gear M113" "bound_rad_Gear M113 < 0.376"
proof -
  have sq: "(Length (m_tooth_mid_bar M113))\<^sup>2 = 0.079815\<^sup>2 + 0.24719\<^sup>2 + 0.2712\<^sup>2"
    by (simp add: M113_fields Length_def)
  show "0.375 < bound_rad_Gear M113"
    unfolding bound_rad_Gear_def sq by (rule real_less_rsqrt) (simp add: M113_fields power2_eq_square)
  show "bound_rad_Gear M113 < 0.376"
    unfolding bound_rad_Gear_def sq by (rule real_less_lsqrt) (simp_all add: M113_fields power2_eq_square)
qed

lemma bound_rad_Shoe_M113: "0.2706 < bound_rad_Shoe M113" "bound_rad_Shoe M113 < 0.2707"
  unfolding bound_rad_Shoe_def M113_fields
  by (rule Length_greater Length_less; simp add: power2_eq_square)+

lemma CollisionGearPinFamily_loop_eq:
  "length (m_shoes cb) \<le> length shoes \<Longrightarrow>
   CollisionGearPinFamily_loop shoes idx (cb, sys, entered) =
     Inr (cb, sys, entered @ filter (broad_phase cb sys shoes) [idx..<length (m_shoes cb)])"
proof (induction n \<equiv> "length (m_shoes cb) - idx" arbitrary: idx entered)
  case 0
  then have "\<not> idx < length (m_shoes cb)" by simp
  then show ?case by (subst CollisionGearPinFamily_loop.simps) simp
next
  case (Suc n)
  then have lt: "idx < length (m_shoes cb)" and n: "n = length (m_shoes cb) - Suc idx" by simp_all
  from lt Suc.prems have lt': "idx < length shoes" by simp
  have upt: "[idx..<length (m_shoes cb)] = idx # [Suc idx..<length (m_shoes cb)]"
    using lt by (simp add: upt_conv_Cons)
  show ?case
    by (subst CollisionGearPinFamily_loop.simps)
       (simp add: lt lt' upt Suc.hyps(1) [OF n Suc.prems])
qed

lemma PerformCustomCollision_eq:
  "PerformCustomCollision (cb, sys) =
     Inr (cb, sys, filter (broad_phase cb sys (m_shoes cb)) [0..<length (m_shoes cb)])"
  by (simp add: PerformCustomCollision_def CollisionGearPinFamily_def CollisionGearPinFamily_loop_eq)

lemma exec_Step_eq: "exec (Step pos rot) (cb, sys) = Inr (cb, sys\<lparr>GetPos := pos, GetRot := rot\<rparr>)"
  by (simp add: PerformCustomCollision_eq)

lemma ctor_fields:
  "m_shoes (GearPinCollisionCallback shoes gear geom hdim) = shoes"
  "m_gear (GearPinCollisionCallback shoes gear geom hdim) = gear"
  "m_geom (GearPinCollisionCallback shoes gear geom hdim) = geom"
  "m_Ncontacts (GearPinCollisionCallback shoes gear geom hdim) = 0"
  "hashed_contacts (GearPinCollisionCallback shoes gear geom hdim) = Map.empty"
  "m_contactPrevStep (GearPinCollisionCallback shoes gear geom hdim) = replicate (length shoes) False"
  "m_persistentContactSteps (GearPinCollisionCallback shoes gear geom hdim) = replicate (length shoes) 0"
  "m_p1_bar (GearPinCollisionCallback shoes gear geom hdim) =
     ChVector (m_pin_x_offset geom) (m_pin_y_offset geom) (m_pin_width_min geom / 2)"
  "m_p2_bar (GearPinCollisionCallback shoes gear geom hdim) =
     ChVector (m_pin_x_offset geom) (m_pin_y_offset geom) (m_pin_width_max geom / 2)"
  by (simp_all add: GearPinCollisionCallback_def Let_def)

lemma new_system_fields:
  "GetPos (new_system pos rot) = pos" "GetRot (new_system pos rot) = rot"
  "contact_container (new_system pos rot) = []"
  "live_locals (new_system pos rot) = Map.empty" "next_local (new_system pos rot) = 0"
  by (simp_all add: new_system_def)

lemma broad_phase_one_shoe:
  "broad_phase one_shoe (new_system (shoe_at (ChVector a b c)) unrotated) [Suc 0] 0 \<longleftrightarrow>
     Length (ChVector (- (a + 0.07581)) (- b) (- c)) \<le> bound_rad_Gear M113 + bound_rad_Shoe M113"
  by (simp add: broad_phase_def pin_pos_def one_shoe_def ctor_fields new_system_fields shoe_at_def
      unrotated_def Rotate_def vadd_def vsub_def M113_fields)

lemma bound_rad_sum_M113:
  "0.6456 < bound_rad_Gear M113 + bound_rad_Shoe M113"
  "bound_rad_Gear M113 + bound_rad_Shoe M113 < 0.6467"
  using bound_rad_Gear_M113 bound_rad_Shoe_M113 by simp_all

lemma far_rejected: "\<not> broad_phase one_shoe sys_far [Suc 0] 0"
proof -
  have "(0.6467::real) < Length (ChVector (- (10 + 0.07581)) (- 0) (- 0))"
    by (rule Length_greater) (simp_all add: power2_eq_square)
  with bound_rad_sum_M113(2) show ?thesis
    unfolding sys_far_def broad_phase_one_shoe by simp
qed

lemma Found_GearPin_Contact_fst:
  "fst (Found_GearPin_Contact gear shoe shoeID pa pb vn mdist (cb, sys)) =
     cb\<lparr>hashed_contacts := fst (get_or_create (hashed_contacts cb) shoeID),
        m_Ncontacts := m_Ncontacts cb + 1\<rparr>"
  by (simp add: Found_GearPin_Contact_def Found_GearPin_Contact_body_def Let_def)

lemma Found_GearPin_Contact_container:
  "contact_container (snd (Found_GearPin_Contact gear shoe shoeID pa pb vn mdist (cb, sys))) =
     contact_container sys @
       [\<lparr> modelA = gear, modelB = shoe, vN = vn, vpA = pa, vpB = pb, distance = mdist,
           reaction_cache = LocalBuf (next_local sys) \<rparr>]"
  by (simp add: Found_GearPin_Contact_def Found_GearPin_Contact_body_def Let_def AddContact_def)

lemma exec_Contact_eq:
  "exec (Contact gear shoe shoeID pa pb vn mdist) (cb, sys) = Inr (cb', sys') \<Longrightarrow>
     cb' = fst (Found_GearPin_Contact gear shoe shoeID pa pb vn mdist (cb, sys))
   \<and> sys' = snd (Found_GearPin_Contact gear shoe shoeID pa pb vn mdist (cb, sys))"
proof -
  assume "exec (Contact gear shoe shoeID pa pb vn mdist) (cb, sys) = Inr (cb', sys')"
  then have "Found_GearPin_Contact gear shoe shoeID pa pb vn mdist (cb, sys) = (cb', sys')"
    by (simp only: exec.simps sum.inject)
  then show ?thesis by (simp only: fst_conv snd_conv)
qed

lemma exec_total: "\<exists>cb' sys'. exec c (cb, sys) = Inr (cb', sys')"
proof (cases c)
  case (Step pos rot)
  then show ?thesis by (simp only: exec_Step_eq) blast
next
  case (Contact gear shoe shoeID pa pb vn mdist)
  obtain cb1 sys1 where "Found_GearPin_Contact gear shoe shoeID pa pb vn mdist (cb, sys) = (cb1, sys1)"
    by (cases "Found_GearPin_Contact gear shoe shoeID pa pb vn mdist (cb, sys)")
  with Contact show ?thesis by (simp only: exec.simps) blast
next
  case (Shoes shoes)
  then show ?thesis by (simp only: exec.simps) blast
qed

lemma exec_frame:
  assumes "exec c (cb, sys) = Inr (cb', sys')"
  shows "m_gear cb' = m_gear cb \<and> m_geom cb' = m_geom cb
   \<and> m_p1_bar cb' = m_p1_bar cb \<and> m_p2_bar cb' = m_p2_bar cb
   \<and> m_seat1_bar cb' = m_seat1_bar cb \<and> m_seat2_bar cb' = m_seat2_bar cb
   \<and> m_contactPrevStep cb' = m_contactPrevStep cb
   \<and> m_persistentContactSteps cb' = m_persistentContactSteps cb
   \<and> (\<not> is_Shoes c \<longrightarrow> m_shoes cb' = m_shoes cb)"
proof (cases c)
  case (Step pos rot)
  with assms have "cb' = cb" by (simp only: exec_Step_eq sum.inject prod.inject)
  then show ?thesis by simp
next
  case (Contact gear shoe shoeID pa pb vn mdist)
  with assms have "cb' = fst (Found_GearPin_Contact gear shoe shoeID pa pb vn mdist (cb, sys))"
    using exec_Contact_eq by blast
  then show ?thesis by (simp add: Found_GearPin_Contact_fst)
next
  case (Shoes shoes)
  with assms have "cb' = cb\<lparr>m_shoes := shoes\<rparr>"
    by (simp only: exec.simps sum.inject prod.inject)
  with Shoes show ?thesis by simp
qed

lemma exec_count:
  assumes "exec c (cb, sys) = Inr (cb', sys')"
  shows "m_Ncontacts cb' = m_Ncontacts cb + (if is_Contact c then 1 else 0)
    \<and> length (contact_container sys') = length (contact_container sys) + (if is_Contact c then 1 else 0)"
proof (cases c)
  case (Step pos rot)
  with assms have "cb' = cb \<and> sys' = sys\<lparr>GetPos := pos, GetRot := rot\<rparr>"
    by (simp only: exec_Step_eq sum.inject prod.inject)
  with Step show ?thesis by simp
next
  case (Contact gear shoe shoeID pa pb vn mdist)
  with assms have "cb' = fst (Found_GearPin_Contact gear shoe shoeID pa pb vn mdist (cb, sys))
     \<and> sys' = snd (Found_GearPin_Contact gear shoe shoeID pa pb vn mdist (cb, sys))"
    using exec_Contact_eq by blast
  with Contact show ?thesis
    by (simp add: Found_GearPin_Contact_fst Found_GearPin_Contact_container)
next
  case (Shoes shoes)
  with assms have "cb' = cb\<lparr>m_shoes := shoes\<rparr> \<and> sys' = sys"
    by (simp only: exec.simps sum.inject prod.inject)
  with Shoes show ?thesis by simp
qed

lemma run_total: "\<exists>cb' sys'. run calls (cb, sys) = Inr (cb', sys')"
proof (induction calls arbitrary: cb sys)
  case Nil
  show ?case by simp
next
  case (Cons c calls)
  obtain cb1 sys1 where e: "exec c (cb, sys) = Inr (cb1, sys1)"
    using exec_total by blast
  from Cons.IH [of cb1 sys1] show ?case by (simp only: run.simps e sum.case)
qed

lemma run_frame:
  "run calls (cb, sys) = Inr (cb', sys') \<Longrightarrow>
     m_gear cb' = m_gear cb \<and> m_geom cb' = m_geom cb
   \<and> m_p1_bar cb' = m_p1_bar cb \<and> m_p2_bar cb' = m_p2_bar cb
   \<and> m_seat1_bar cb' = m_seat1_bar cb \<and> m_seat2_bar cb' = m_seat2_bar cb
   \<and> m_contactPrevStep cb' = m_contactPrevStep cb
   \<and> m_persistentContactSteps cb' = m_persistentContactSteps cb
   \<and> (filter is_Shoes calls = [] \<longrightarrow> m_shoes cb' = m_shoes cb)"
proof (induction calls arbitrary: cb sys)
  case Nil
  then show ?case by simp
next
  case (Cons c calls)
  obtain cb1 sys1 where e: "exec c (cb, sys) = Inr (cb1, sys1)"
    using exec_total by blast
  with Cons.prems have "run calls (cb1, sys1) = Inr (cb', sys')" by (simp only: run.simps sum.case)
  from Cons.IH [OF this] exec_frame [OF e] show ?case by (simp split: if_splits)
qed

lemma run_count:
  "run calls (cb, sys) = Inr (cb', sys') \<Longrightarrow>
     m_Ncontacts cb' = m_Ncontacts cb + of_nat (length (filter is_Contact calls))
   \<and> length (contact_container sys') = length (contact_container sys) + length (filter is_Contact calls)"
proof (induction calls arbitrary: cb sys)
  case Nil
  then show ?case by simp
next
  case (Cons c calls)
  obtain cb1 sys1 where e: "exec c (cb, sys) = Inr (cb1, sys1)"
    using exec_total by blast
  with Cons.prems have "run calls (cb1, sys1) = Inr (cb', sys')" by (simp only: run.simps sum.case)
  from Cons.IH [OF this] exec_count [OF e] show ?case by simp
qed

lemma seat_loop_props:
  "length (fst (seat_loop geom t (s1, s2))) = length s1
   \<and> length (snd (seat_loop geom t (s1, s2))) = length s2
   \<and> (\<forall>i < length s1. fst (seat_loop geom t (s1, s2)) ! i =
         (if t \<le> i \<and> i < m_num_teeth geom
          then ChVector (m_gear_base_radius geom * sin (m_key_angle geom))
                        (m_gear_base_radius geom * cos (m_key_angle geom))
                        (m_gear_seat_width_min geom / 2)
          else s1 ! i))
   \<and> (\<forall>i < length s2. snd (seat_loop geom t (s1, s2)) ! i =
         (if t \<le> i \<and> i < m_num_teeth geom
          then ChVector (m_gear_base_radius geom * sin (m_key_angle geom))
                        (m_gear_base_radius geom * cos (m_key_angle geom))
                        (m_gear_seat_width_max geom / 2)
          else s2 ! i))"
proof (induction n \<equiv> "m_num_teeth geom - t" arbitrary: t s1 s2)
  case 0
  then have "\<not> t < m_num_teeth geom" by simp
  then show ?case by (subst (1 2 3 4) seat_loop.simps) auto
next
  case (Suc n)
  then have lt: "t < m_num_teeth geom" and n: "n = m_num_teeth geom - Suc t" by simp_all
  show ?case
    apply (subst (1 2 3 4) seat_loop.simps)
    apply (simp only: lt if_True)
    using Suc.hyps(1) [OF n] lt
    apply (auto simp add: nth_list_update)
    done
qed

lemma ctor_seats:
  "m_seat1_bar (GearPinCollisionCallback shoes gear geom hdim) =
     fst (seat_loop geom 0 (replicate (m_num_teeth geom) (ChVector 0 0 0),
                            replicate (m_num_teeth geom) (ChVector 0 0 0)))"
  "m_seat2_bar (GearPinCollisionCallback shoes gear geom hdim) =
     snd (seat_loop geom 0 (replicate (m_num_teeth geom) (ChVector 0 0 0),
                            replicate (m_num_teeth geom) (ChVector 0 0 0)))"
  by (simp_all add: GearPinCollisionCallback_def Let_def)

lemma sint_succ: "sint (w :: 32 word) < 2147483647 \<Longrightarrow> sint (w + 1) = sint w + 1"
proof -
  assume a: "sint w < 2147483647"
  have lo: "- (2 ^ 31) \<le> sint w" using sint_ge [of w] by simp
  have "sint (w + 1) = signed_take_bit 31 (sint w + 1)"
    by (simp add: sint_word_ariths)
  also have "\<dots> = sint w + 1"
    using a lo by (intro signed_take_bit_int_eq_self) simp_all
  finally show ?thesis .
qed

lemma sint_of_nat_small: "n < 2147483648 \<Longrightarrow> sint (of_nat n :: 32 word) = int n"
proof -
  assume a: "n < 2147483648"
  have "sint (of_nat n :: 32 word) = signed_take_bit 31 (int n)"
    by (simp add: signed_of_nat)
  also have "\<dots> = int n"
    using a by (intro signed_take_bit_int_eq_self) simp_all
  finally show ?thesis .
qed

lemma run_Step:
  "run (Step pos rot # cs) (cb, sys) = run cs (cb, sys\<lparr>GetPos := pos, GetRot := rot\<rparr>)"
  by (simp only: run.simps exec_Step_eq sum.case)

lemma one_shoe_fields:
  "m_shoes one_shoe = [Suc 0]" "m_gear one_shoe = 0" "m_geom one_shoe = M113"
  "m_Ncontacts one_shoe = 0" "hashed_contacts one_shoe = Map.empty"
  "m_contactPrevStep one_shoe = [False]" "m_persistentContactSteps one_shoe = [0]"
  "m_p1_bar one_shoe = ChVector (- 0.07581) 0 0.19"
  "m_p2_bar one_shoe = ChVector (- 0.07581) 0 0.2655"
  by (simp_all add: one_shoe_def ctor_fields M113_fields)

lemma one_shoe_seats:
  "m_seat1_bar one_shoe ! 0 = ChVector 0 0.211 0.229"
  "m_seat2_bar one_shoe ! 0 = ChVector 0 0.211 0.313"
  using seat_loop_props [of M113 0 "replicate (m_num_teeth M113) (ChVector 0 0 0)"
      "replicate (m_num_teeth M113) (ChVector 0 0 0)"]
  by (simp_all add: one_shoe_def ctor_seats M113_fields)

lemma pressed_accepted: "broad_phase one_shoe sys_pressed [Suc 0] 0"
proof -
  have "Length (ChVector (- (0.07581 + 0.07581)) (- 0.2342) (- 0)) < 0.6456"
    by (rule Length_less) (simp_all add: power2_eq_square)
  with bound_rad_sum_M113(1) show ?thesis
    unfolding sys_pressed_def broad_phase_one_shoe by simp
qed


lemma persistence_after_eq:
  "persistence_after calls (cb, sys) = Inr (m_persistentContactSteps cb)"
proof -
  obtain cb' sys' where r: "run calls (cb, sys) = Inr (cb', sys')"
    using run_total by blast
  from run_frame [OF r] show ?thesis
    by (simp add: persistence_after_def r)
qed

lemma contacts_after_eq:
  "contacts_after calls (cb, sys) =
     Inr (length (contact_container sys) + length (filter is_Contact calls))"
proof -
  obtain cb' sys' where r: "run calls (cb, sys) = Inr (cb', sys')"
    using run_total by blast
  from run_count [OF r] show ?thesis
    by (simp add: contacts_after_def r)
qed

lemma count_after_eq:
  "count_after calls (cb, sys) =
     Inr (sint (m_Ncontacts cb + of_nat (length (filter is_Contact calls))))"
proof -
  obtain cb' sys' where r: "run calls (cb, sys) = Inr (cb', sys')"
    using run_total by blast
  from run_count [OF r] show ?thesis
    by (simp add: count_after_def r GetNcontacts_GearPin_def)
qed

lemma surface_accepted: "broad_phase one_shoe sys_surface [Suc 0] 0"
proof -
  have "Length (ChVector (- (0.07581 + 0.07581)) (- 0.2902) (- 0)) < 0.6456"
    by (rule Length_less) (simp_all add: power2_eq_square)
  with bound_rad_sum_M113(1) show ?thesis
    unfolding sys_surface_def broad_phase_one_shoe by simp
qed

lemma near_rejected: "\<not> broad_phase one_shoe sys_near [Suc 0] 0"
proof -
  have "(0.6467::real) < Length (ChVector (- (0.6 + 0.07581)) (- 0) (- 0))"
    by (rule Length_greater) (simp_all add: power2_eq_square)
  with bound_rad_sum_M113(2) show ?thesis
    unfolding sys_near_def broad_phase_one_shoe by simp
qed

lemma get_or_create_absent:
  "mhash k = None \<Longrightarrow>
     get_or_create mhash k = (mhash(k \<mapsto> \<lparr>reactions_cache = [0,0,0,0,0,0]\<rparr>), \<lparr>reactions_cache = [0,0,0,0,0,0]\<rparr>)"
  by (simp add: get_or_create_def ChHashTable_find_def ChHashTable_insert_def GearPinCacheContact_def
      numeral_eq_Suc)

lemma get_or_create_present:
  "mhash k = Some e \<Longrightarrow> get_or_create mhash k = (mhash, e)"
  by (simp add: get_or_create_def ChHashTable_find_def)

lemma contact_7_at_AddContact_eq:
  "contact_7_at_AddContact (one_shoe, sys_seated) =
     (one_shoe\<lparr>hashed_contacts := [7 \<mapsto> \<lparr>reactions_cache = [0,0,0,0,0,0]\<rparr>], m_Ncontacts := 1\<rparr>,
      sys_seated\<lparr>live_locals := [0 \<mapsto> [0,0,0,0,0,0]], next_local := Suc 0,
                 contact_container :=
                   [\<lparr> modelA = 0, modelB = 1, vN = ChVector 0 1 0, vpA = ChVector 0 0.2342 0.229,
                      vpB = ChVector 0 0.211 0.229, distance = 0, reaction_cache = LocalBuf 0 \<rparr>]\<rparr>)"
  by (simp add: contact_7_at_AddContact_def Found_GearPin_Contact_body_def Let_def
      get_or_create_absent one_shoe_fields sys_seated_def new_system_def AddContact_def)

lemma contact_7_eq:
  "contact_7 (one_shoe, sys_seated) =
     (one_shoe\<lparr>hashed_contacts := [7 \<mapsto> \<lparr>reactions_cache = [0,0,0,0,0,0]\<rparr>], m_Ncontacts := 1\<rparr>,
      sys_seated\<lparr>live_locals := Map.empty, next_local := Suc 0,
                 contact_container :=
                   [\<lparr> modelA = 0, modelB = 1, vN = ChVector 0 1 0, vpA = ChVector 0 0.2342 0.229,
                      vpB = ChVector 0 0.211 0.229, distance = 0, reaction_cache = LocalBuf 0 \<rparr>]\<rparr>)"
  by (simp add: contact_7_def Found_GearPin_Contact_def Found_GearPin_Contact_body_def Let_def
      get_or_create_absent one_shoe_fields sys_seated_def new_system_def AddContact_def)

section \<open>The claims\<close>

text \<open>
  C3. Construction of a GearPinGeometry succeeds exactly when the seat width differential,
  the pin width differential and the pitch/base radius differential are all strictly
  positive, and the object it then yields stores pitch radius minus base radius as its
  tooth radius.
\<close>

theorem GearPinGeometry_succeeds_iff:
  "((\<exists>g. GearPinGeometry br pr swmax swmin tmb tlen twid nt ka pinr pwmax pwmin px py = Inr g)
      \<longleftrightarrow> (swmax - swmin > 0 \<and> pwmax - pwmin > 0 \<and> pr - br > 0))
   \<and> (\<forall>g. GearPinGeometry br pr swmax swmin tmb tlen twid nt ka pinr pwmax pwmin px py = Inr g
          \<longrightarrow> m_gear_tooth_radius g = pr - br)"
  by (auto simp add: GearPinGeometry_def Let_def)

theorem GearPinGeometry_succeeds_iff_witness:
  "(\<exists>g. default_geometry = Inr g \<and> m_gear_tooth_radius g = 0.056)
   \<and> GearPinGeometry 0.211 0.267 0.458 0.458 (ChVector 0.079815 0.24719 0.2712)
       0.013119 0.0840 10 0.0 0.0232 0.531 0.38 (-0.07581) 0 = Inl AssertionFailed"
  using GearPinGeometry_succeeds_iff [of "0.211" "0.267" "0.626" "0.458" "ChVector 0.079815 0.24719 0.2712"
       "0.013119" "0.0840" 10 "0.0" "0.0232" "0.531" "0.38" "-0.07581" 0]
  by (simp add: default_geometry_def GearPinGeometry_def Let_def)


text \<open>
  C9. After construction both seat vectors have one entry per tooth, and at every tooth
  index the inner and the outer seat endpoint are the same two points: base radius times
  sine and cosine of the key angle, and half the minimal, respectively maximal, seat
  width. No tooth is rotated with respect to another. Whatever is called on the callback
  afterwards, the two vectors stay as constructed.
\<close>

theorem seat_endpoints_identical:
  "length (m_seat1_bar (GearPinCollisionCallback shoes gear geom hdim)) = m_num_teeth geom
   \<and> length (m_seat2_bar (GearPinCollisionCallback shoes gear geom hdim)) = m_num_teeth geom
   \<and> (\<forall>t < m_num_teeth geom.
         m_seat1_bar (GearPinCollisionCallback shoes gear geom hdim) ! t =
           ChVector (m_gear_base_radius geom * sin (m_key_angle geom))
                    (m_gear_base_radius geom * cos (m_key_angle geom))
                    (m_gear_seat_width_min geom / 2)
       \<and> m_seat2_bar (GearPinCollisionCallback shoes gear geom hdim) ! t =
           ChVector (m_gear_base_radius geom * sin (m_key_angle geom))
                    (m_gear_base_radius geom * cos (m_key_angle geom))
                    (m_gear_seat_width_max geom / 2))
   \<and> (\<forall>calls sys. \<exists>cb' sys'.
         run calls (GearPinCollisionCallback shoes gear geom hdim, sys) = Inr (cb', sys')
       \<and> m_seat1_bar cb' = m_seat1_bar (GearPinCollisionCallback shoes gear geom hdim)
       \<and> m_seat2_bar cb' = m_seat2_bar (GearPinCollisionCallback shoes gear geom hdim))"
proof -
  let ?cb = "GearPinCollisionCallback shoes gear geom hdim"
  let ?z = "replicate (m_num_teeth geom) (ChVector 0 0 0)"
  note p = seat_loop_props [of geom 0 ?z ?z]
  have len: "length (m_seat1_bar ?cb) = m_num_teeth geom" "length (m_seat2_bar ?cb) = m_num_teeth geom"
    using p by (simp_all add: ctor_seats)
  have nth: "\<forall>t < m_num_teeth geom.
         m_seat1_bar ?cb ! t =
           ChVector (m_gear_base_radius geom * sin (m_key_angle geom))
                    (m_gear_base_radius geom * cos (m_key_angle geom))
                    (m_gear_seat_width_min geom / 2)
       \<and> m_seat2_bar ?cb ! t =
           ChVector (m_gear_base_radius geom * sin (m_key_angle geom))
                    (m_gear_base_radius geom * cos (m_key_angle geom))
                    (m_gear_seat_width_max geom / 2)"
    using p by (simp add: ctor_seats)
  have later: "\<exists>cb' sys'. run calls (?cb, sys) = Inr (cb', sys')
       \<and> m_seat1_bar cb' = m_seat1_bar ?cb \<and> m_seat2_bar cb' = m_seat2_bar ?cb" for calls sys
  proof -
    obtain cb' sys' where r: "run calls (?cb, sys) = Inr (cb', sys')"
      using run_total by blast
    from run_frame [OF r] r show ?thesis by blast
  qed
  from len nth later show ?thesis by blast
qed

theorem seat_endpoints_identical_witness:
  "(3::nat) < m_num_teeth M113
   \<and> m_seat1_bar one_shoe ! 3 = ChVector 0 0.211 0.229
   \<and> m_seat2_bar one_shoe ! 3 = ChVector 0 0.211 0.313
   \<and> m_seat1_bar one_shoe ! 9 = ChVector 0 0.211 0.229
   \<and> length (m_seat1_bar one_shoe) = 10"
  using seat_endpoints_identical [of "[1]" 0 M113 1000]
  by (simp add: one_shoe_def M113_fields)

text \<open>
  C2, as the code has it. Nothing advances the persistence state: after any run from
  construction every shoe's counter of consecutive contact steps is 0 and its
  previous-step flag is false, as the constructor left them.
\<close>

theorem persistence_state_never_advanced:
  "\<exists>cb sys'. run calls (GearPinCollisionCallback shoes gear geom hdim, sys) = Inr (cb, sys')
     \<and> m_persistentContactSteps cb = replicate (length shoes) 0
     \<and> m_contactPrevStep cb = replicate (length shoes) False"
proof -
  let ?cb0 = "GearPinCollisionCallback shoes gear geom hdim"
  obtain cb sys' where r: "run calls (?cb0, sys) = Inr (cb, sys')"
    using run_total by blast
  from run_frame [OF r] have "m_persistentContactSteps cb = replicate (length shoes) 0"
    "m_contactPrevStep cb = replicate (length shoes) False"
    by (simp_all add: ctor_fields)
  with r show ?thesis by blast
qed

theorem persistence_state_never_advanced_witness:
  "\<exists>cb sys'. run four_steps (one_shoe, sys_far) = Inr (cb, sys')
     \<and> m_persistentContactSteps cb = [0] \<and> m_contactPrevStep cb = [False]"
  using persistence_state_never_advanced [of four_steps "[1]" 0 M113 1000 sys_far]
  unfolding one_shoe_def [symmetric] by simp

text \<open>
  C2 as stated fails. Over four steps the shoe is 10 m away, then twice pressed into the
  first seat (pin axis parallel to the seat axis and one pin radius from it, the segments
  overlapping; the broad phase accepts it) with a contact reported for it in the step,
  then 10 m away again. One contact, then two, have reached the container, and the
  counts after the four steps are 0, 0, 0, 0 and not 0, 1, 2, 0.
\<close>

theorem persistence_counts_counterexample:
  "persistence_after (take 1 four_steps) (one_shoe, sys_far) = Inr [0]
   \<and> persistence_after (take 3 four_steps) (one_shoe, sys_far) = Inr [0]
   \<and> persistence_after (take 5 four_steps) (one_shoe, sys_far) = Inr [0]
   \<and> persistence_after (take 6 four_steps) (one_shoe, sys_far) = Inr [0]
   \<and> persistence_after (take 3 four_steps) (one_shoe, sys_far) \<noteq> Inr [1]
   \<and> persistence_after (take 5 four_steps) (one_shoe, sys_far) \<noteq> Inr [2]
   \<and> contacts_after (take 1 four_steps) (one_shoe, sys_far) = Inr 0
   \<and> contacts_after (take 3 four_steps) (one_shoe, sys_far) = Inr 1
   \<and> contacts_after (take 5 four_steps) (one_shoe, sys_far) = Inr 2
   \<and> contacts_after (take 6 four_steps) (one_shoe, sys_far) = Inr 2
   \<and> \<not> broad_phase one_shoe sys_far [1] 0
   \<and> broad_phase one_shoe sys_pressed [1] 0
   \<and> vadd (GetPos sys_pressed 1) (m_p1_bar one_shoe) = ChVector 0 0.2342 0.19
   \<and> vadd (GetPos sys_pressed 1) (m_p2_bar one_shoe) = ChVector 0 0.2342 0.2655
   \<and> m_seat1_bar one_shoe ! 0 = ChVector 0 0.211 0.229
   \<and> m_seat2_bar one_shoe ! 0 = ChVector 0 0.211 0.313"
proof -
  have p: "persistence_after calls (one_shoe, sys_far) = Inr [0]" for calls
    by (simp add: persistence_after_eq one_shoe_fields)
  have c: "contacts_after (take 1 four_steps) (one_shoe, sys_far) = Inr 0"
    "contacts_after (take 3 four_steps) (one_shoe, sys_far) = Inr 1"
    "contacts_after (take 5 four_steps) (one_shoe, sys_far) = Inr 2"
    "contacts_after (take 6 four_steps) (one_shoe, sys_far) = Inr 2"
    by (simp_all add: contacts_after_eq four_steps_def sys_far_def new_system_fields)
  have g: "vadd (GetPos sys_pressed 1) (m_p1_bar one_shoe) = ChVector 0 0.2342 0.19"
    "vadd (GetPos sys_pressed 1) (m_p2_bar one_shoe) = ChVector 0 0.2342 0.2655"
    by (simp_all add: sys_pressed_def new_system_fields shoe_at_def vadd_def one_shoe_fields)
  from p c g far_rejected pressed_accepted one_shoe_seats show ?thesis by simp
qed

text \<open>
  C6, as the code has it. The contact counter is 0 after construction.
  \<open>Found_GearPin_Contact\<close> adds one to it, as a 32-bit \<open>int\<close>, and appends exactly one
  contact to the container; the per-step callback leaves it as it is, so the count query
  never decreases across a step; nothing resets it. While the count is below \<open>2^31 - 1\<close>
  the query grows by exactly one with each contact, and after any run from construction
  in which fewer than \<open>2^31\<close> contacts were emitted the query returns their number.
\<close>

theorem contact_counter_cumulative:
  "m_Ncontacts (GearPinCollisionCallback shoes gear geom hdim) = 0
   \<and> GetNcontacts_GearPin (GearPinCollisionCallback shoes gear geom hdim) = 0
   \<and> m_Ncontacts (fst (Found_GearPin_Contact g sh shoeID pa pb vn mdist (cb, sys))) = m_Ncontacts cb + 1
   \<and> length (contact_container (snd (Found_GearPin_Contact g sh shoeID pa pb vn mdist (cb, sys))))
        = length (contact_container sys) + 1
   \<and> (GetNcontacts_GearPin cb < 2147483647 \<longrightarrow>
        GetNcontacts_GearPin (fst (Found_GearPin_Contact g sh shoeID pa pb vn mdist (cb, sys)))
          = GetNcontacts_GearPin cb + 1)
   \<and> (\<exists>cb' sys' entered. PerformCustomCollision (cb, sys) = Inr (cb', sys', entered)
         \<and> m_Ncontacts cb' = m_Ncontacts cb
         \<and> GetNcontacts_GearPin cb \<le> GetNcontacts_GearPin cb')
   \<and> (\<exists>cb' sys'. run calls (GearPinCollisionCallback shoes gear geom hdim, sys) = Inr (cb', sys')
         \<and> m_Ncontacts cb' = of_nat (length (filter is_Contact calls))
         \<and> length (contact_container sys') = length (contact_container sys) + length (filter is_Contact calls)
         \<and> (length (filter is_Contact calls) < 2147483648 \<longrightarrow>
              GetNcontacts_GearPin cb' = int (length (filter is_Contact calls))))"
proof -
  let ?cb0 = "GearPinCollisionCallback shoes gear geom hdim"
  have init: "m_Ncontacts ?cb0 = 0" "GetNcontacts_GearPin ?cb0 = 0"
    by (simp_all add: GetNcontacts_GearPin_def ctor_fields)
  have inc: "m_Ncontacts (fst (Found_GearPin_Contact g sh shoeID pa pb vn mdist (cb, sys))) = m_Ncontacts cb + 1"
    by (simp add: Found_GearPin_Contact_fst)
  have emit: "length (contact_container (snd (Found_GearPin_Contact g sh shoeID pa pb vn mdist (cb, sys))))
        = length (contact_container sys) + 1"
    by (simp add: Found_GearPin_Contact_container)
  have sinc: "GetNcontacts_GearPin cb < 2147483647 \<longrightarrow>
        GetNcontacts_GearPin (fst (Found_GearPin_Contact g sh shoeID pa pb vn mdist (cb, sys)))
          = GetNcontacts_GearPin cb + 1"
    by (simp add: GetNcontacts_GearPin_def inc sint_succ)
  have step: "\<exists>cb' sys' entered. PerformCustomCollision (cb, sys) = Inr (cb', sys', entered)
         \<and> m_Ncontacts cb' = m_Ncontacts cb
         \<and> GetNcontacts_GearPin cb \<le> GetNcontacts_GearPin cb'"
    by (simp add: PerformCustomCollision_eq)
  obtain cb' sys' where r: "run calls (?cb0, sys) = Inr (cb', sys')"
    using run_total by blast
  from run_count [OF r] have c: "m_Ncontacts cb' = of_nat (length (filter is_Contact calls))"
    and l: "length (contact_container sys') = length (contact_container sys) + length (filter is_Contact calls)"
    by (simp_all add: init)
  have s: "length (filter is_Contact calls) < 2147483648 \<longrightarrow>
              GetNcontacts_GearPin cb' = int (length (filter is_Contact calls))"
    by (simp add: GetNcontacts_GearPin_def c sint_of_nat_small)
  from r c l s have whole: "\<exists>cb' sys'. run calls (?cb0, sys) = Inr (cb', sys')
         \<and> m_Ncontacts cb' = of_nat (length (filter is_Contact calls))
         \<and> length (contact_container sys') = length (contact_container sys) + length (filter is_Contact calls)
         \<and> (length (filter is_Contact calls) < 2147483648 \<longrightarrow>
              GetNcontacts_GearPin cb' = int (length (filter is_Contact calls)))"
    by blast
  from init inc emit sinc step whole show ?thesis by blast
qed

theorem contact_counter_cumulative_witness:
  "GetNcontacts_GearPin one_shoe = 0
   \<and> GetNcontacts_GearPin one_shoe < 2147483647
   \<and> GetNcontacts_GearPin (fst (Found_GearPin_Contact 0 1 7 (ChVector 0 0 0) (ChVector 0 0 0)
        (ChVector 0 1 0) 0 (one_shoe, sys_seated))) = 1
   \<and> (\<exists>cb' sys'.
         run [Step (shoe_at (ChVector 10 0 0)) unrotated,
              Contact 0 1 7 (ChVector 0 0 0) (ChVector 0 0 0) (ChVector 0 1 0) 0,
              Step (shoe_at (ChVector 10 0 0)) unrotated,
              Contact 0 1 7 (ChVector 0 0 0) (ChVector 0 0 0) (ChVector 0 1 0) 0] (one_shoe, sys_far)
           = Inr (cb', sys')
       \<and> GetNcontacts_GearPin cb' = 2
       \<and> length (contact_container sys') = 2)"
proof -
  have z: "GetNcontacts_GearPin one_shoe = 0"
    by (simp add: GetNcontacts_GearPin_def one_shoe_fields)
  have e: "contact_container sys_far = []"
    by (simp add: sys_far_def new_system_fields)
  note t1 = contact_counter_cumulative [where shoes = "[1]" and gear = 0 and geom = M113 and hdim = 1000
      and g = 0 and sh = 1 and shoeID = 7 and pa = "ChVector 0 0 0" and pb = "ChVector 0 0 0"
      and vn = "ChVector 0 1 0" and mdist = 0 and cb = one_shoe and sys = sys_seated
      and calls = "[]"]
  note t2 = contact_counter_cumulative [where shoes = "[1]" and gear = 0 and geom = M113 and hdim = 1000
      and g = 0 and sh = 1 and shoeID = 7 and pa = "ChVector 0 0 0" and pb = "ChVector 0 0 0"
      and vn = "ChVector 0 1 0" and mdist = 0 and cb = one_shoe and sys = sys_far
      and calls = "[Step (shoe_at (ChVector 10 0 0)) unrotated,
              Contact 0 1 7 (ChVector 0 0 0) (ChVector 0 0 0) (ChVector 0 1 0) 0,
              Step (shoe_at (ChVector 10 0 0)) unrotated,
              Contact 0 1 7 (ChVector 0 0 0) (ChVector 0 0 0) (ChVector 0 1 0) 0]"]
  have lt: "GetNcontacts_GearPin one_shoe < 2147483647"
    by (simp add: z)
  from t1 [THEN conjunct2, THEN conjunct2, THEN conjunct2, THEN conjunct2, THEN conjunct1] lt z
  have one: "GetNcontacts_GearPin (fst (Found_GearPin_Contact 0 1 7 (ChVector 0 0 0) (ChVector 0 0 0)
        (ChVector 0 1 0) 0 (one_shoe, sys_seated))) = 1"
    by simp
  from t2 [THEN conjunct2, THEN conjunct2, THEN conjunct2, THEN conjunct2, THEN conjunct2, THEN conjunct2]
  obtain cb' sys' where
    "run [Step (shoe_at (ChVector 10 0 0)) unrotated,
              Contact 0 1 7 (ChVector 0 0 0) (ChVector 0 0 0) (ChVector 0 1 0) 0,
              Step (shoe_at (ChVector 10 0 0)) unrotated,
              Contact 0 1 7 (ChVector 0 0 0) (ChVector 0 0 0) (ChVector 0 1 0) 0] (one_shoe, sys_far)
           = Inr (cb', sys')"
    and "length (contact_container sys') = 2"
    and "GetNcontacts_GearPin cb' = 2"
    unfolding one_shoe_def [symmetric] by (auto simp add: e simp del: run.simps)
  then have two: "\<exists>cb' sys'.
         run [Step (shoe_at (ChVector 10 0 0)) unrotated,
              Contact 0 1 7 (ChVector 0 0 0) (ChVector 0 0 0) (ChVector 0 1 0) 0,
              Step (shoe_at (ChVector 10 0 0)) unrotated,
              Contact 0 1 7 (ChVector 0 0 0) (ChVector 0 0 0) (ChVector 0 1 0) 0] (one_shoe, sys_far)
           = Inr (cb', sys')
       \<and> GetNcontacts_GearPin cb' = 2
       \<and> length (contact_container sys') = 2"
    by blast
  from z lt one two show ?thesis by (simp only: simp_thms)
qed

text \<open>
  C6 as stated fails where the 32-bit counter is full. After 2147483647 contacts
  reported from construction the query returns 2147483647; after one more it returns
  -2147483648: the value has decreased and is no longer the number of contacts emitted.
\<close>

theorem contact_counter_wraps:
  "count_after (replicate 2147483647 one_contact) (one_shoe, sys_far) = Inr 2147483647
   \<and> count_after (replicate 2147483648 one_contact) (one_shoe, sys_far) = Inr (- 2147483648)"
proof -
  have f: "length (filter is_Contact (replicate n one_contact)) = n" for n
    by (simp add: one_contact_def)
  have a: "sint (0 + of_nat 2147483647 :: 32 word) = 2147483647"
    by simp
  have b: "sint (0 + of_nat 2147483648 :: 32 word) = - 2147483648"
    by simp
  show ?thesis
    by (simp only: count_after_eq f one_shoe_fields a b simp_thms)
qed

text \<open>
  C7, as the code has it. The branch that the narrow phase belongs to is empty: whatever
  the poses, the per-step callback returns without a contact added to the container and
  with the contact counter unchanged. No contact is reported, so none with a negative
  depth and none beyond the sum of the radii.
\<close>

theorem no_contact_reported:
  "\<exists>cb' sys' entered. PerformCustomCollision (cb, sys) = Inr (cb', sys', entered)
     \<and> contact_container sys' = contact_container sys
     \<and> m_Ncontacts cb' = m_Ncontacts cb"
  by (simp add: PerformCustomCollision_eq)

theorem no_contact_reported_witness:
  "\<exists>cb' sys' entered. PerformCustomCollision (one_shoe, sys_surface) = Inr (cb', sys', entered)
     \<and> contact_container sys' = [] \<and> m_Ncontacts cb' = 0"
  using no_contact_reported [of one_shoe sys_surface]
  by (simp add: one_shoe_fields sys_surface_def new_system_fields)

text \<open>
  C7 as stated fails at the boundary. The pin axis is parallel to the axis of the first
  seat cylinder, at a distance of pin radius plus tooth radius (the code gives the seat
  cylinder no radius of its own). The broad phase accepts the shoe, and the callback
  returns with the state as it was and the container empty: the pin is not classified as
  a contact.
\<close>

theorem pin_on_seat_surface_no_contact:
  "PerformCustomCollision (one_shoe, sys_surface) = Inr (one_shoe, sys_surface, [0])
   \<and> contact_container sys_surface = []
   \<and> vadd (GetPos sys_surface 1) (m_p1_bar one_shoe) = ChVector 0 0.2902 0.19
   \<and> vadd (GetPos sys_surface 1) (m_p2_bar one_shoe) = ChVector 0 0.2902 0.2655
   \<and> m_seat1_bar one_shoe ! 0 = ChVector 0 0.211 0.229
   \<and> m_seat2_bar one_shoe ! 0 = ChVector 0 0.211 0.313
   \<and> (0.2902 :: real) - 0.211 = m_pin_radius (m_geom one_shoe) + m_gear_tooth_radius (m_geom one_shoe)"
proof -
  have r: "PerformCustomCollision (one_shoe, sys_surface) = Inr (one_shoe, sys_surface, [0])"
    using surface_accepted by (simp add: PerformCustomCollision_eq one_shoe_fields)
  have g: "vadd (GetPos sys_surface 1) (m_p1_bar one_shoe) = ChVector 0 0.2902 0.19"
    "vadd (GetPos sys_surface 1) (m_p2_bar one_shoe) = ChVector 0 0.2902 0.2655"
    "contact_container sys_surface = []"
    by (simp_all add: sys_surface_def new_system_fields shoe_at_def vadd_def one_shoe_fields)
  have d: "(0.2902 :: real) - 0.211 = m_pin_radius (m_geom one_shoe) + m_gear_tooth_radius (m_geom one_shoe)"
    by (simp add: one_shoe_fields M113_fields)
  from r g d one_shoe_seats show ?thesis by simp
qed

text \<open>
  C10, as the code has it. Where the shoe vector has as many shoes as the per-shoe flag
  vector has entries, a query with an index below the number of shoes passes the
  \<open>assert\<close>, reads inside \<open>m_contactPrevStep\<close> and returns the flag stored there. An index
  that is not below the number of shoes fails the \<open>assert\<close>, which ends the program rather
  than returning a value. The two sizes agree after construction; no call changes the
  flag vector, and the shoe vector changes only when the caller changes it.
\<close>

theorem Get_contactPrevStep_in_range:
  "(length (m_contactPrevStep cb) = length (m_shoes cb) \<longrightarrow> idx < length (m_shoes cb) \<longrightarrow>
        idx < length (m_contactPrevStep cb)
      \<and> Get_contactPrevStep cb idx = Inr (m_contactPrevStep cb ! idx))
   \<and> (\<not> idx < length (m_shoes cb) \<longrightarrow> Get_contactPrevStep cb idx = Inl AssertionFailed)
   \<and> length (m_contactPrevStep (GearPinCollisionCallback shoes gear geom hdim))
       = length (m_shoes (GearPinCollisionCallback shoes gear geom hdim))
   \<and> (\<exists>cb' sys'. run calls (cb, sys) = Inr (cb', sys')
         \<and> m_contactPrevStep cb' = m_contactPrevStep cb
         \<and> (filter is_Shoes calls = [] \<longrightarrow> m_shoes cb' = m_shoes cb))"
proof -
  have inr: "length (m_contactPrevStep cb) = length (m_shoes cb) \<longrightarrow> idx < length (m_shoes cb) \<longrightarrow>
        idx < length (m_contactPrevStep cb)
      \<and> Get_contactPrevStep cb idx = Inr (m_contactPrevStep cb ! idx)"
    by (simp add: Get_contactPrevStep_def)
  have inl: "\<not> idx < length (m_shoes cb) \<longrightarrow> Get_contactPrevStep cb idx = Inl AssertionFailed"
    by (simp add: Get_contactPrevStep_def)
  have ctor: "length (m_contactPrevStep (GearPinCollisionCallback shoes gear geom hdim))
       = length (m_shoes (GearPinCollisionCallback shoes gear geom hdim))"
    by (simp add: ctor_fields)
  obtain cb' sys' where r: "run calls (cb, sys) = Inr (cb', sys')"
    using run_total by blast
  from run_frame [OF r] r have later: "\<exists>cb' sys'. run calls (cb, sys) = Inr (cb', sys')
         \<and> m_contactPrevStep cb' = m_contactPrevStep cb
         \<and> (filter is_Shoes calls = [] \<longrightarrow> m_shoes cb' = m_shoes cb)"
    by blast
  from inr inl ctor later show ?thesis by (simp only: simp_thms)
qed

theorem Get_contactPrevStep_in_range_witness:
  "length (m_contactPrevStep (one_shoe\<lparr>m_shoes := [1, 2], m_contactPrevStep := [False, True]\<rparr>))
     = length (m_shoes (one_shoe\<lparr>m_shoes := [1, 2], m_contactPrevStep := [False, True]\<rparr>))
   \<and> (1::nat) < length [1::nat, 2]
   \<and> Get_contactPrevStep (one_shoe\<lparr>m_shoes := [1, 2], m_contactPrevStep := [False, True]\<rparr>) 1 = Inr True
   \<and> Get_contactPrevStep (one_shoe\<lparr>m_shoes := [1, 2], m_contactPrevStep := [False, True]\<rparr>) 0 = Inr False
   \<and> \<not> (2::nat) < length [1::nat, 2]
   \<and> Get_contactPrevStep (one_shoe\<lparr>m_shoes := [1, 2], m_contactPrevStep := [False, True]\<rparr>) 2
       = Inl AssertionFailed
   \<and> length (m_contactPrevStep one_shoe) = length (m_shoes one_shoe)
   \<and> filter is_Shoes four_steps = []
   \<and> (\<exists>cb' sys'. run four_steps (one_shoe, sys_far) = Inr (cb', sys')
         \<and> m_contactPrevStep cb' = [False] \<and> m_shoes cb' = [1])"
proof -
  let ?cb = "one_shoe\<lparr>m_shoes := [1, 2], m_contactPrevStep := [False, True]\<rparr>"
  note t0 = Get_contactPrevStep_in_range [where cb = ?cb and idx = 0 and shoes = "[1]" and gear = 0
      and geom = M113 and hdim = 1000 and calls = "[]" and sys = sys_far]
  note t1 = Get_contactPrevStep_in_range [where cb = ?cb and idx = 1 and shoes = "[1]" and gear = 0
      and geom = M113 and hdim = 1000 and calls = "[]" and sys = sys_far]
  note t2 = Get_contactPrevStep_in_range [where cb = ?cb and idx = 2 and shoes = "[1]" and gear = 0
      and geom = M113 and hdim = 1000 and calls = "[]" and sys = sys_far]
  note t3 = Get_contactPrevStep_in_range [where cb = one_shoe and idx = 0 and shoes = "[1]" and gear = 0
      and geom = M113 and hdim = 1000 and calls = four_steps and sys = sys_far]
  have len: "length (m_contactPrevStep ?cb) = length (m_shoes ?cb)" by simp
  have i0: "0 < length (m_shoes ?cb)" and i1: "1 < length (m_shoes ?cb)"
    and i2: "\<not> 2 < length (m_shoes ?cb)" by simp_all
  from t0 [THEN conjunct1, rule_format, OF len i0]
  have r0: "Get_contactPrevStep ?cb 0 = Inr False" by simp
  from t1 [THEN conjunct1, rule_format, OF len i1]
  have r1: "Get_contactPrevStep ?cb 1 = Inr True" by simp
  from t2 [THEN conjunct2, THEN conjunct1, rule_format, OF i2]
  have r2: "Get_contactPrevStep ?cb 2 = Inl AssertionFailed" .
  from t3 [THEN conjunct2, THEN conjunct2, THEN conjunct1]
  have c: "length (m_contactPrevStep one_shoe) = length (m_shoes one_shoe)"
    by (simp only: one_shoe_def)
  have ns: "filter is_Shoes four_steps = []" by (simp add: four_steps_def)
  from t3 [THEN conjunct2, THEN conjunct2, THEN conjunct2] ns
  have l: "\<exists>cb' sys'. run four_steps (one_shoe, sys_far) = Inr (cb', sys')
         \<and> m_contactPrevStep cb' = [False] \<and> m_shoes cb' = [1]"
    by (simp add: one_shoe_fields)
  from len r0 r1 r2 c ns l show ?thesis by simp
qed

text \<open>
  C10 as stated fails once the caller has appended a shoe to its vector. The callback was
  constructed over one shoe and the vector now holds two: index 1 is below the number of
  shoes and passes the \<open>assert\<close>, but the flag vector still has the one entry it was
  given at construction, and the read is beyond its end.
\<close>

theorem Get_contactPrevStep_after_append:
  "prev_after [Shoes [1, 2]] (one_shoe, sys_far) 1 = Inl OutOfRange
   \<and> prev_after [Shoes [1, 2]] (one_shoe, sys_far) 0 = Inr False
   \<and> prev_after [] (one_shoe, sys_far) 1 = Inl AssertionFailed
   \<and> (1::nat) < length [1::nat, 2]"
  by (simp add: prev_after_def Get_contactPrevStep_def one_shoe_fields)

text \<open>
  C1, at a first contact of shoe 7 on a freshly constructed callback. The claim has the
  contact carry the reaction vector of the cache entry itself, updated in place. The
  code hands the container the address of the buffer of the local copy
  \<open>mreaction_cache\<close>: the contact's pointer is the local buffer and not the cache slot;
  the buffer holds the six zeros of the new entry while \<open>AddContact\<close> runs and is gone
  once the function has returned, so a later write through the pointer is undefined. A
  write made through it while it is alive leaves the cache entry at six zeros, where a
  write through a pointer to the entry would have changed it. A second contact of the
  same shoe finds the entry still at six zeros and carries a second local buffer.
\<close>

theorem warm_start_is_local_copy:
  "contact_pointers (snd (contact_7 (one_shoe, sys_seated))) = [LocalBuf 0]
   \<and> deref (contact_7 (one_shoe, sys_seated)) (CacheSlot 7) = Some [0, 0, 0, 0, 0, 0]
   \<and> deref (contact_7 (one_shoe, sys_seated)) (LocalBuf 0) = None
   \<and> store_reactions (LocalBuf 0) [1, 2, 3, 4, 5, 6] (contact_7 (one_shoe, sys_seated)) = None
   \<and> deref (contact_7_at_AddContact (one_shoe, sys_seated)) (LocalBuf 0) = Some [0, 0, 0, 0, 0, 0]
   \<and> stored_then_read (LocalBuf 0) [1, 2, 3, 4, 5, 6] (contact_7_at_AddContact (one_shoe, sys_seated))
        (CacheSlot 7) = Some [0, 0, 0, 0, 0, 0]
   \<and> stored_then_read (CacheSlot 7) [1, 2, 3, 4, 5, 6] (contact_7_at_AddContact (one_shoe, sys_seated))
        (CacheSlot 7) = Some [1, 2, 3, 4, 5, 6]
   \<and> contact_pointers (snd (contact_7 (contact_7 (one_shoe, sys_seated)))) = [LocalBuf 0, LocalBuf 1]
   \<and> deref (contact_7 (contact_7 (one_shoe, sys_seated))) (CacheSlot 7) = Some [0, 0, 0, 0, 0, 0]"
proof -
  have second: "contact_7 (contact_7 (one_shoe, sys_seated)) =
     (one_shoe\<lparr>hashed_contacts := [7 \<mapsto> \<lparr>reactions_cache = [0,0,0,0,0,0]\<rparr>], m_Ncontacts := 2\<rparr>,
      sys_seated\<lparr>live_locals := Map.empty, next_local := Suc (Suc 0),
                 contact_container :=
                   [\<lparr> modelA = 0, modelB = 1, vN = ChVector 0 1 0, vpA = ChVector 0 0.2342 0.229,
                      vpB = ChVector 0 0.211 0.229, distance = 0, reaction_cache = LocalBuf 0 \<rparr>,
                    \<lparr> modelA = 0, modelB = 1, vN = ChVector 0 1 0, vpA = ChVector 0 0.2342 0.229,
                      vpB = ChVector 0 0.211 0.229, distance = 0, reaction_cache = LocalBuf 1 \<rparr>]\<rparr>)"
    unfolding contact_7_eq
    by (simp add: contact_7_def Found_GearPin_Contact_def Found_GearPin_Contact_body_def Let_def
      get_or_create_present AddContact_def)
  show ?thesis
    unfolding second unfolding contact_7_eq contact_7_at_AddContact_eq
    by (simp add: contact_pointers_def stored_then_read_def)
qed

text \<open>
  C4, at the default geometry with the gear at the origin and the unrotated shoe at
  (0.6, 0, 0). The code centres the shoe's bounding sphere at the shoe position plus the
  rotated vector (- pin_x_offset, 0, 0), that is at x = 0.67581, farther from the gear
  than the sum of the radii: the pair is rejected. The pin offset
  (pin_x_offset, pin_y_offset, 0), rotated and translated as the claim says, gives
  x = 0.52419, within the sum of the radii: by the claim the pair is accepted.
\<close>

theorem broad_phase_pin_centre_negated:
  "\<not> broad_phase one_shoe sys_near [1] 0
   \<and> PerformCustomCollision (one_shoe, sys_near) = Inr (one_shoe, sys_near, [])
   \<and> pin_pos one_shoe sys_near [1] 0 = ChVector 0.67581 0 0
   \<and> bound_rad_Gear M113 + bound_rad_Shoe M113 < Length (vsub (GetPos sys_near 0) (ChVector 0.67581 0 0))
   \<and> vadd (GetPos sys_near 1)
        (Rotate (GetRot sys_near 1) (ChVector (m_pin_x_offset M113) (m_pin_y_offset M113) 0))
      = ChVector 0.52419 0 0
   \<and> Length (vsub (GetPos sys_near 0) (ChVector 0.52419 0 0)) \<le> bound_rad_Gear M113 + bound_rad_Shoe M113"
proof -
  have r: "\<not> broad_phase one_shoe sys_near [1] 0"
    using near_rejected by simp
  then have p: "PerformCustomCollision (one_shoe, sys_near) = Inr (one_shoe, sys_near, [])"
    by (simp add: PerformCustomCollision_eq one_shoe_fields)
  have pp: "pin_pos one_shoe sys_near [1] 0 = ChVector 0.67581 0 0"
    by (simp add: pin_pos_def one_shoe_fields M113_fields sys_near_def new_system_fields shoe_at_def
        unrotated_def Rotate_def vadd_def)
  have far: "bound_rad_Gear M113 + bound_rad_Shoe M113 < Length (vsub (GetPos sys_near 0) (ChVector 0.67581 0 0))"
  proof -
    have "(0.6467::real) < Length (ChVector (- 0.67581) 0 0)"
      by (rule Length_greater) (simp_all add: power2_eq_square)
    with bound_rad_sum_M113(2) show ?thesis
      by (simp add: sys_near_def new_system_fields shoe_at_def vsub_def)
  qed
  have doc: "vadd (GetPos sys_near 1)
        (Rotate (GetRot sys_near 1) (ChVector (m_pin_x_offset M113) (m_pin_y_offset M113) 0))
      = ChVector 0.52419 0 0"
    by (simp add: M113_fields sys_near_def new_system_fields shoe_at_def unrotated_def Rotate_def vadd_def)
  have near: "Length (vsub (GetPos sys_near 0) (ChVector 0.52419 0 0)) \<le> bound_rad_Gear M113 + bound_rad_Shoe M113"
  proof -
    have "Length (ChVector (- 0.52419) 0 0) < 0.6456"
      by (rule Length_less) (simp_all add: power2_eq_square)
    with bound_rad_sum_M113(1) show ?thesis
      by (simp add: sys_near_def new_system_fields shoe_at_def vsub_def)
  qed
  from r p pp far doc near show ?thesis by (simp only: simp_thms)
qed

text \<open>
  C5. When the table has no entry for an identifier, the lookup at the head of
  \<open>Found_GearPin_Contact\<close> inserts a record under it whose reaction vector is six zeros.
  A second lookup of the same identifier, with nothing written in between, yields the
  same record and the same table. A write to the record stored under one identifier
  leaves the record stored under any other identifier as it was.
\<close>

theorem get_or_create_properties:
  "(ChHashTable_find mhash k = None \<longrightarrow>
      fst (get_or_create mhash k) = mhash(k \<mapsto> snd (get_or_create mhash k))
    \<and> reactions_cache (snd (get_or_create mhash k)) = [0, 0, 0, 0, 0, 0])
   \<and> get_or_create (fst (get_or_create mhash k)) k = get_or_create mhash k
   \<and> (k' \<noteq> k \<longrightarrow> store_reactions (CacheSlot k) v (cb, sys) = Some (cb', sys') \<longrightarrow>
        hashed_contacts cb' k' = hashed_contacts cb k')"
proof -
  have absent: "ChHashTable_find mhash k = None \<longrightarrow>
      fst (get_or_create mhash k) = mhash(k \<mapsto> snd (get_or_create mhash k))
    \<and> reactions_cache (snd (get_or_create mhash k)) = [0, 0, 0, 0, 0, 0]"
    by (simp add: ChHashTable_find_def get_or_create_absent)
  have twice: "get_or_create (fst (get_or_create mhash k)) k = get_or_create mhash k"
  proof (cases "mhash k")
    case None
    then show ?thesis by (simp add: get_or_create_absent get_or_create_present)
  next
    case (Some e)
    then show ?thesis by (simp add: get_or_create_present)
  qed
  have other: "k' \<noteq> k \<longrightarrow> store_reactions (CacheSlot k) v (cb, sys) = Some (cb', sys') \<longrightarrow>
        hashed_contacts cb' k' = hashed_contacts cb k'"
    by (auto split: option.splits)
  from absent twice other show ?thesis by blast
qed

theorem get_or_create_properties_witness:
  "ChHashTable_find Map.empty 7 = None
   \<and> reactions_cache (snd (get_or_create Map.empty 7)) = [0, 0, 0, 0, 0, 0]
   \<and> fst (get_or_create Map.empty 7) 7 = Some \<lparr>reactions_cache = [0, 0, 0, 0, 0, 0]\<rparr>
   \<and> get_or_create (fst (get_or_create Map.empty 7)) 7 = get_or_create Map.empty 7
   \<and> (8::int) \<noteq> 7
   \<and> store_reactions (CacheSlot 7) [1, 2, 3, 4, 5, 6]
        (one_shoe\<lparr>hashed_contacts := [7 \<mapsto> GearPinCacheContact, 8 \<mapsto> GearPinCacheContact]\<rparr>, sys_seated)
      = Some (one_shoe\<lparr>hashed_contacts := [7 \<mapsto> \<lparr>reactions_cache = [1, 2, 3, 4, 5, 6]\<rparr>,
                                           8 \<mapsto> GearPinCacheContact]\<rparr>, sys_seated)
   \<and> hashed_contacts (one_shoe\<lparr>hashed_contacts := [7 \<mapsto> \<lparr>reactions_cache = [1, 2, 3, 4, 5, 6]\<rparr>,
                                           8 \<mapsto> GearPinCacheContact]\<rparr>) 8
       = hashed_contacts (one_shoe\<lparr>hashed_contacts := [7 \<mapsto> GearPinCacheContact, 8 \<mapsto> GearPinCacheContact]\<rparr>) 8"
proof -
  have f: "ChHashTable_find Map.empty 7 = None" by (simp add: ChHashTable_find_def)
  have n: "(8::int) \<noteq> 7" by simp
  have s: "store_reactions (CacheSlot 7) [1, 2, 3, 4, 5, 6]
        (one_shoe\<lparr>hashed_contacts := [7 \<mapsto> GearPinCacheContact, 8 \<mapsto> GearPinCacheContact]\<rparr>, sys_seated)
      = Some (one_shoe\<lparr>hashed_contacts := [7 \<mapsto> \<lparr>reactions_cache = [1, 2, 3, 4, 5, 6]\<rparr>,
                                           8 \<mapsto> GearPinCacheContact]\<rparr>, sys_seated)"
    by (simp add: GearPinCacheContact_def fun_upd_twist)
  note t = get_or_create_properties [where mhash = Map.empty and k = 7 and k' = 8
      and v = "[1, 2, 3, 4, 5, 6]"
      and cb = "one_shoe\<lparr>hashed_contacts := [7 \<mapsto> GearPinCacheContact, 8 \<mapsto> GearPinCacheContact]\<rparr>"
      and sys = sys_seated
      and cb' = "one_shoe\<lparr>hashed_contacts := [7 \<mapsto> \<lparr>reactions_cache = [1, 2, 3, 4, 5, 6]\<rparr>,
                                           8 \<mapsto> GearPinCacheContact]\<rparr>"
      and sys' = sys_seated]
  from t [THEN conjunct1, rule_format, OF f]
  have a: "reactions_cache (snd (get_or_create Map.empty 7)) = [0, 0, 0, 0, 0, 0]"
    and b: "fst (get_or_create Map.empty 7) 7 = Some \<lparr>reactions_cache = [0, 0, 0, 0, 0, 0]\<rparr>"
    by (simp_all add: get_or_create_absent)
  note c = t [THEN conjunct2, THEN conjunct1]
  note d = t [THEN conjunct2, THEN conjunct2, rule_format, OF n s]
  from f a b c n s d show ?thesis by (simp only: simp_thms)
qed

end
